theory Spec2Isabelle
  imports Main
begin

section \<open>Values of the program\<close>

text \<open>
  A JavaScript string is a sequence of UTF-16 code units; the model keeps the code units
  as natural numbers, so that the Korean literals of \<^verbatim>\<open>queries.ts\<close> are written out
  exactly. \<open>ascii\<close> embeds an ASCII literal.

  A JavaScript number that the program uses as an identifier, a counter, a quantity or an
  HTTP status is modelled as an integer, with exact arithmetic. The program computes with
  IEEE doubles: its sums, differences and products are exact as long as the operands and
  the result are safe integers (of magnitude at most \<open>2 ^ 53 - 1\<close>, what
  \<^verbatim>\<open>Number.isSafeInteger\<close> accepts), and such numbers print in plain decimal. Beyond
  that range a double rounds, and the model is not the program. Every statement below
  that depends on the arithmetic carries the bound as a hypothesis.
\<close>

type_synonym jsString = "nat list"

definition ascii :: "string \<Rightarrow> jsString" where
  "ascii s = map of_char s"

definition isSafeInteger :: "int \<Rightarrow> bool" where
  "isSafeInteger n = (- (2 ^ 53 - 1) \<le> n \<and> n \<le> 2 ^ 53 - 1)"

section \<open>The key registry (\<^verbatim>\<open>queries\<close>)\<close>

text \<open>
  A cache key is an array of segments; a segment is a string or a number
  (\<^verbatim>\<open>string | number\<close> for the identifiers). Two keys are equal when their segments
  are equal in order.
\<close>

datatype segment = Str jsString | Num int

type_synonym queryKey = "segment list"

definition themes_key :: queryKey where
  "themes_key = [Str (ascii ''themes'')]"

definition themeInfo_key :: "segment \<Rightarrow> queryKey" where
  "themeInfo_key themeId = [Str (ascii ''themes''), themeId, Str (ascii ''info'')]"

definition themeProducts_key :: "segment \<Rightarrow> queryKey" where
  "themeProducts_key themeId = [Str (ascii ''themes''), themeId, Str (ascii ''products'')]"

definition rankingProducts_key :: "jsString \<Rightarrow> jsString \<Rightarrow> queryKey" where
  "rankingProducts_key targetType rankType =
     [Str (ascii ''products''), Str (ascii ''ranking''), Str targetType, Str rankType]"

definition product_key :: "segment \<Rightarrow> queryKey" where
  "product_key productId = [Str (ascii ''products''), productId]"

definition productDetail_key :: "segment \<Rightarrow> queryKey" where
  "productDetail_key productId = [Str (ascii ''products''), productId, Str (ascii ''detail'')]"

definition productReviews_key :: "segment \<Rightarrow> queryKey" where
  "productReviews_key productId = [Str (ascii ''products''), productId, Str (ascii ''reviews'')]"

definition productWish_key :: "segment \<Rightarrow> queryKey" where
  "productWish_key productId = [Str (ascii ''products''), productId, Str (ascii ''wish'')]"

definition products_key :: queryKey where
  "products_key = [Str (ascii ''products'')]"

text \<open>
  The earlier revision of the file keeps the combined product page under a key of its own,
  written inline as \<^verbatim>\<open>['productPage', productId]\<close>.
\<close>

definition productPage_key :: "segment \<Rightarrow> queryKey" where
  "productPage_key productId = [Str (ascii ''productPage''), productId]"

text \<open>
  A key family of the registry together with its parameters, and the key the registry
  gives it.
\<close>

datatype family =
    Themes
  | ThemeInfo segment
  | ThemeProducts segment
  | RankingProducts jsString jsString
  | Product segment
  | ProductDetail segment
  | ProductReviews segment
  | ProductWish segment
  | Products

fun keyOf :: "family \<Rightarrow> queryKey" where
  "keyOf Themes = themes_key"
| "keyOf (ThemeInfo themeId) = themeInfo_key themeId"
| "keyOf (ThemeProducts themeId) = themeProducts_key themeId"
| "keyOf (RankingProducts targetType rankType) = rankingProducts_key targetType rankType"
| "keyOf (Product productId) = product_key productId"
| "keyOf (ProductDetail productId) = productDetail_key productId"
| "keyOf (ProductReviews productId) = productReviews_key productId"
| "keyOf (ProductWish productId) = productWish_key productId"
| "keyOf Products = products_key"

section \<open>The query cache\<close>

text \<open>
  \<^verbatim>\<open>ProductWish\<close> is \<^verbatim>\<open>{ wishCount, isWished }\<close>. The other payloads (a product, its
  detail, its reviews) are opaque to this file. The combined page bundles the four reads
  (\<^verbatim>\<open>{ product, productDetail, reviewData, wishData }\<close>): its \<^verbatim>\<open>product\<close> is
  \<^verbatim>\<open>Product | null\<close>, and its \<^verbatim>\<open>wishData\<close> may be missing, which the rewrite of the
  earlier revision defends against (\<^verbatim>\<open>old.wishData?.wishCount || 0\<close>).
\<close>

record productWish =
  wishCount :: int
  isWished :: bool

datatype payload = Payload nat

record productPage =
  product :: "payload option"
  productDetail :: payload
  reviewData :: payload
  wishData :: "productWish option"

datatype cacheData = WishData productWish | PageData productPage | OtherData payload

text \<open>
  The client holds the data of each query under its key, and the keys of the reads that are
  in flight. \<open>getQueryData\<close> gives \<^verbatim>\<open>undefined\<close> (\<open>None\<close>) for a key without data.
  \<open>setQueryData\<close> runs the updater on the present data and stores the result, unless the
  updater gives \<^verbatim>\<open>undefined\<close>, in which case nothing is written. \<open>cancelQueries\<close>
  stops the in-flight reads whose key starts with the given key and leaves the data as it is.
\<close>

record queryClient =
  entries :: "queryKey \<rightharpoonup> cacheData"
  fetching :: "queryKey list"

fun partialMatchKey :: "queryKey \<Rightarrow> queryKey \<Rightarrow> bool" where
  "partialMatchKey [] key = True"
| "partialMatchKey (p # ps) [] = False"
| "partialMatchKey (p # ps) (k # ks) = (p = k \<and> partialMatchKey ps ks)"

definition getQueryData :: "queryClient \<Rightarrow> queryKey \<Rightarrow> cacheData option" where
  "getQueryData client key = entries client key"

definition setQueryData ::
  "queryClient \<Rightarrow> queryKey \<Rightarrow> (cacheData option \<Rightarrow> cacheData option) \<Rightarrow> queryClient" where
  "setQueryData client key updater =
     (case updater (entries client key) of
        None \<Rightarrow> client
      | Some d \<Rightarrow> client\<lparr>entries := (entries client)(key \<mapsto> d)\<rparr>)"

definition cancelQueries :: "queryClient \<Rightarrow> queryKey \<Rightarrow> queryClient" where
  "cancelQueries client key =
     client\<lparr>fetching := filter (\<lambda>k. \<not> partialMatchKey key k) (fetching client)\<rparr>"

text \<open>
  The annotations \<^verbatim>\<open>as ProductWish | undefined\<close> and \<^verbatim>\<open>old: ProductWish | undefined\<close>
  are not checked when the program runs. The program stores nothing but a
  \<^verbatim>\<open>ProductWish\<close> under a wish key and nothing but a page under a page key; the model
  reads a payload of another shape there as absent.
\<close>

definition asProductWish :: "cacheData option \<Rightarrow> productWish option" where
  "asProductWish d = (case d of Some (WishData w) \<Rightarrow> Some w | _ \<Rightarrow> None)"

definition asProductPage :: "cacheData option \<Rightarrow> productPage option" where
  "asProductPage d = (case d of Some (PageData p) \<Rightarrow> Some p | _ \<Rightarrow> None)"

section \<open>The wish toggle (\<^verbatim>\<open>useToggleWishMutation\<close>), later revision\<close>

text \<open>
  The updater given to \<^verbatim>\<open>setQueryData\<close> for the wish key. \<open>isWishedArg\<close> is the
  \<^verbatim>\<open>isWished\<close> of the mutation's input. The record update keeps whatever else
  \<^verbatim>\<open>...old\<close> carries. The count is the program's count when \<^verbatim>\<open>old.wishCount\<close> is a
  safe integer.
\<close>

definition wishUpdater :: "bool \<Rightarrow> productWish option \<Rightarrow> productWish" where
  "wishUpdater isWishedArg old =
     (case old of
        None \<Rightarrow> \<lparr>wishCount = 0, isWished = False\<rparr>
      | Some old \<Rightarrow>
          old\<lparr>isWished := \<not> isWishedArg,
              wishCount := (if isWishedArg then wishCount old - 1 else wishCount old + 1)\<rparr>)"

record toggleContext =
  previousWish :: "productWish option"
  previousProduct :: "cacheData option"
  previousProductDetail :: "cacheData option"
  previousProductReviews :: "cacheData option"

record mutationResult =
  success :: bool

definition toggleWish_mutationFn :: "int \<Rightarrow> bool \<Rightarrow> 'e + mutationResult" where
  "toggleWish_mutationFn productId isWishedArg = Inr \<lparr>success = True\<rparr>"

definition toggleWish_onMutate ::
  "int \<Rightarrow> bool \<Rightarrow> queryClient \<Rightarrow> queryClient \<times> toggleContext" where
  "toggleWish_onMutate productId isWishedArg client =
     (let c1 = cancelQueries client (productWish_key (Num productId));
          c2 = cancelQueries c1 (product_key (Num productId));
          c3 = cancelQueries c2 (productDetail_key (Num productId));
          c4 = cancelQueries c3 (productReviews_key (Num productId));
          prevWish = asProductWish (getQueryData c4 (productWish_key (Num productId)));
          prevProduct = getQueryData c4 (product_key (Num productId));
          prevProductDetail = getQueryData c4 (productDetail_key (Num productId));
          prevProductReviews = getQueryData c4 (productReviews_key (Num productId));
          c5 = setQueryData c4 (productWish_key (Num productId))
                 (\<lambda>old. Some (WishData (wishUpdater isWishedArg (asProductWish old))))
      in (c5, \<lparr>previousWish = prevWish, previousProduct = prevProduct,
               previousProductDetail = prevProductDetail,
               previousProductReviews = prevProductReviews\<rparr>))"

text \<open>
  \<^verbatim>\<open>context?.previousWish\<close> is falsy when there is no context or when the snapshot is
  \<^verbatim>\<open>undefined\<close>; only a snapshot that holds a value is written back.
\<close>

definition toggleWish_onError ::
  "'e \<Rightarrow> int \<Rightarrow> bool \<Rightarrow> toggleContext option \<Rightarrow> queryClient \<Rightarrow> queryClient" where
  "toggleWish_onError err productId isWishedArg ctx client =
     (case ctx of
        None \<Rightarrow> client
      | Some cx \<Rightarrow>
          (case previousWish cx of
             None \<Rightarrow> client
           | Some w \<Rightarrow>
               setQueryData client (productWish_key (Num productId))
                 (\<lambda>old. Some (WishData w))))"

definition toggleWish_onSettled :: "queryClient \<Rightarrow> queryClient" where
  "toggleWish_onSettled client = client"

text \<open>
  The life cycle that \<^verbatim>\<open>useMutation\<close> gives these callbacks: \<^verbatim>\<open>onMutate\<close> first, then
  the remote call, then \<^verbatim>\<open>onError\<close> when it fails (there is no \<^verbatim>\<open>onSuccess\<close> here),
  then \<^verbatim>\<open>onSettled\<close>. The remote call is a parameter, so that a failing call can be
  followed; the hook itself passes the stub \<^verbatim>\<open>mutationFn\<close>, which always succeeds.
\<close>

definition toggleWish_mutate ::
  "(int \<Rightarrow> bool \<Rightarrow> 'e + mutationResult) \<Rightarrow> int \<Rightarrow> bool \<Rightarrow> queryClient \<Rightarrow> queryClient" where
  "toggleWish_mutate remote productId isWishedArg client =
     (case toggleWish_onMutate productId isWishedArg client of
        (c1, cx) \<Rightarrow>
          (case remote productId isWishedArg of
             Inr res \<Rightarrow> toggleWish_onSettled c1
           | Inl err \<Rightarrow>
               toggleWish_onSettled
                 (toggleWish_onError err productId isWishedArg (Some cx) c1)))"

definition useToggleWishMutation :: "int \<Rightarrow> bool \<Rightarrow> queryClient \<Rightarrow> queryClient" where
  "useToggleWishMutation productId isWishedArg client =
     toggleWish_mutate (toggleWish_mutationFn :: int \<Rightarrow> bool \<Rightarrow> unit + mutationResult)
       productId isWishedArg client"

section \<open>The wish toggle, earlier revision\<close>

text \<open>
  The earlier revision of \<^verbatim>\<open>useToggleWishMutation\<close> also keeps the combined page
  \<^verbatim>\<open>['productPage', productId]\<close> up to date. Its definitions carry the prefix
  \<open>prior_\<close>; the updater of the wish key is the same function. The page updater gives
  back \<^verbatim>\<open>old\<close> when there is no page, so nothing is written then; otherwise it rewrites
  the embedded \<^verbatim>\<open>wishData\<close>, taking a missing count as 0.
\<close>

definition pageUpdater :: "bool \<Rightarrow> cacheData option \<Rightarrow> cacheData option" where
  "pageUpdater isWishedArg old =
     (case asProductPage old of
        None \<Rightarrow> old
      | Some p \<Rightarrow>
          Some (PageData (p\<lparr>wishData := Some
            (case wishData p of
               None \<Rightarrow>
                 \<lparr>wishCount = (if isWishedArg then 0 - 1 else 0 + 1), isWished = \<not> isWishedArg\<rparr>
             | Some w \<Rightarrow>
                 w\<lparr>isWished := \<not> isWishedArg,
                   wishCount := (if isWishedArg then wishCount w - 1 else wishCount w + 1)\<rparr>)\<rparr>)))"

record prior_toggleContext =
  prior_previousWish :: "productWish option"
  prior_previousProductPage :: "cacheData option"

definition prior_toggleWish_onMutate ::
  "int \<Rightarrow> bool \<Rightarrow> queryClient \<Rightarrow> queryClient \<times> prior_toggleContext" where
  "prior_toggleWish_onMutate productId isWishedArg client =
     (let c1 = cancelQueries client (productWish_key (Num productId));
          c2 = cancelQueries c1 (productPage_key (Num productId));
          prevWish = asProductWish (getQueryData c2 (productWish_key (Num productId)));
          prevProductPage = getQueryData c2 (productPage_key (Num productId));
          c3 = setQueryData c2 (productWish_key (Num productId))
                 (\<lambda>old. Some (WishData (wishUpdater isWishedArg (asProductWish old))));
          c4 = setQueryData c3 (productPage_key (Num productId)) (pageUpdater isWishedArg)
      in (c4, \<lparr>prior_previousWish = prevWish, prior_previousProductPage = prevProductPage\<rparr>))"



text \<open>Concrete clients and a failing remote call, for the examples below.\<close>

definition emptyClient :: queryClient where
  "emptyClient = \<lparr>entries = Map.empty, fetching = []\<rparr>"

definition wishClient :: "int \<Rightarrow> int \<Rightarrow> bool \<Rightarrow> queryClient" where
  "wishClient productId c w =
     \<lparr>entries = [productWish_key (Num productId) \<mapsto> WishData \<lparr>wishCount = c, isWished = w\<rparr>],
      fetching = []\<rparr>"


definition wishPageClient :: "int \<Rightarrow> int \<Rightarrow> bool \<Rightarrow> queryClient" where
  "wishPageClient productId c w =
     \<lparr>entries = [productWish_key (Num productId) \<mapsto> WishData \<lparr>wishCount = c, isWished = w\<rparr>,
                 productPage_key (Num productId) \<mapsto>
                   PageData \<lparr>product = Some (Payload 1), productDetail = Payload 2,
                             reviewData = Payload 3,
                             wishData = Some \<lparr>wishCount = c, isWished = w\<rparr>\<rparr>],
      fetching = [productWish_key (Num productId), themes_key]\<rparr>"

section \<open>The product reads\<close>

text \<open>
  The remote boundary (\<^verbatim>\<open>api.productsApi\<close>) is a parameter: each call either fails
  with an error or resolves, \<^verbatim>\<open>getProduct\<close> possibly to \<^verbatim>\<open>null\<close>. A suspending read
  gives the data, or throws the error to the nearest error boundary (\<open>Inl\<close>); the model
  follows a read that has to load.
\<close>

datatype jsError = Error jsString | TypeError

record productsApi =
  getProduct :: "segment \<Rightarrow> jsError + payload option"
  getProductDetail :: "segment \<Rightarrow> jsError + payload"
  getProductReviews :: "segment \<Rightarrow> jsError + payload"
  getProductWish :: "segment \<Rightarrow> jsError + productWish option"

definition product_fn :: "productsApi \<Rightarrow> segment \<Rightarrow> jsError + payload option" where
  "product_fn api productId = getProduct api productId"

definition productDetail_fn :: "productsApi \<Rightarrow> segment \<Rightarrow> jsError + payload" where
  "productDetail_fn api productId = getProductDetail api productId"

definition productReviews_fn :: "productsApi \<Rightarrow> segment \<Rightarrow> jsError + payload" where
  "productReviews_fn api productId = getProductReviews api productId"

definition productWish_fn :: "productsApi \<Rightarrow> segment \<Rightarrow> jsError + productWish option" where
  "productWish_fn api productId = getProductWish api productId"

text \<open>The message of the error the earlier revision throws for a missing product.\<close>

definition msg_productNotFound :: jsString where
  "msg_productNotFound =
     [0xC874, 0xC7AC, 0xD558, 0xC9C0, 0x20, 0xC54A, 0xB294, 0x20, 0xC0C1, 0xD488, 0xC785,
      0xB2C8, 0xB2E4]"

text \<open>
  Later revision: the query function is the loader itself, and the page read is four
  queries read together (\<^verbatim>\<open>useSuspenseQueries\<close>); an error of any of them is thrown.
  Which error is thrown when several loads fail depends on timing; the model takes the
  first in the order of the array, and no statement below depends on which one is taken.
\<close>

definition useSuspenseProductQuery :: "productsApi \<Rightarrow> segment \<Rightarrow> jsError + payload option" where
  "useSuspenseProductQuery api productId = product_fn api productId"

definition useProductPageDataQuery :: "productsApi \<Rightarrow> segment \<Rightarrow> jsError + productPage" where
  "useProductPageDataQuery api productId =
     (case product_fn api productId of
        Inl e \<Rightarrow> Inl e
      | Inr prd \<Rightarrow>
     (case productDetail_fn api productId of
        Inl e \<Rightarrow> Inl e
      | Inr detail \<Rightarrow>
     (case productReviews_fn api productId of
        Inl e \<Rightarrow> Inl e
      | Inr reviews \<Rightarrow>
     (case productWish_fn api productId of
        Inl e \<Rightarrow> Inl e
      | Inr wish \<Rightarrow>
          Inr \<lparr>product = prd, productDetail = detail, reviewData = reviews,
               wishData = wish\<rparr>))))"

text \<open>
  Earlier revision: both query functions check the product after the load and throw when
  it is missing. The page read awaits the four loaders with \<^verbatim>\<open>Promise.all\<close>, which
  rejects as soon as one of them does (again the first in the order of the array), and
  checks the product once all four have resolved.
\<close>

definition prior_useSuspenseProductQuery :: "productsApi \<Rightarrow> segment \<Rightarrow> jsError + payload" where
  "prior_useSuspenseProductQuery api productId =
     (case product_fn api productId of
        Inl e \<Rightarrow> Inl e
      | Inr None \<Rightarrow> Inl (Error msg_productNotFound)
      | Inr (Some prd) \<Rightarrow> Inr prd)"

definition prior_useProductPageDataQuery :: "productsApi \<Rightarrow> segment \<Rightarrow> jsError + productPage" where
  "prior_useProductPageDataQuery api productId =
     (case product_fn api productId of
        Inl e \<Rightarrow> Inl e
      | Inr prd \<Rightarrow>
     (case productDetail_fn api productId of
        Inl e \<Rightarrow> Inl e
      | Inr detail \<Rightarrow>
     (case productReviews_fn api productId of
        Inl e \<Rightarrow> Inl e
      | Inr reviews \<Rightarrow>
     (case productWish_fn api productId of
        Inl e \<Rightarrow> Inl e
      | Inr wish \<Rightarrow>
          (case prd of
             None \<Rightarrow> Inl (Error msg_productNotFound)
           | Some pr \<Rightarrow>
               Inr \<lparr>product = Some pr, productDetail = detail, reviewData = reviews,
                    wishData = wish\<rparr>)))))"

definition missingProductApi :: productsApi where
  "missingProductApi =
     \<lparr>getProduct = (\<lambda>productId. Inr None),
      getProductDetail = (\<lambda>productId. Inr (Payload 2)),
      getProductReviews = (\<lambda>productId. Inr (Payload 3)),
      getProductWish = (\<lambda>productId. Inr (Some \<lparr>wishCount = 5, isWished = True\<rparr>))\<rparr>"

section \<open>The paginated theme read (\<^verbatim>\<open>useThemeProductsInfiniteQuery\<close>)\<close>

text \<open>
  Modelled from the spec: \<^verbatim>\<open>ThemeProductsResponse\<close> is declared in \<^verbatim>\<open>@/types/api\<close>,
  which is not among the sources; the spec gives a page as the items together with
  \<^verbatim>\<open>hasMoreList: boolean\<close>. The remote read
  \<^verbatim>\<open>api.themesApi.getThemeProductsWithPagination(themeId, { cursor, limit })\<close> is a
  parameter taking the theme, the cursor and the limit.
\<close>

record themeProductsResponse =
  items :: "payload list"
  hasMoreList :: bool

type_synonym themesApi = "segment \<Rightarrow> int \<Rightarrow> int \<Rightarrow> jsError + themeProductsResponse"

text \<open>
  The hook hands \<^verbatim>\<open>useInfiniteQuery\<close> its options. \<open>limitArg\<close> is \<open>None\<close> when the
  caller leaves \<^verbatim>\<open>limit\<close> out, and \<open>limitParam\<close> is the value the parameter
  \<^verbatim>\<open>limit: number = 20\<close> then has; the query function likewise reads a missing
  \<^verbatim>\<open>pageParam\<close> as 0. The product \<^verbatim>\<open>allPages.length * limit\<close> is the program's when
  the limit and the product are safe integers.
\<close>

record infiniteQueryOptions =
  queryKey :: queryKey
  queryFn :: "int option \<Rightarrow> jsError + themeProductsResponse"
  getNextPageParam :: "themeProductsResponse \<Rightarrow> themeProductsResponse list \<Rightarrow> int option"
  initialPageParam :: int

definition limitParam :: "int option \<Rightarrow> int" where
  "limitParam limitArg = (case limitArg of None \<Rightarrow> 20 | Some l \<Rightarrow> l)"

definition useThemeProductsInfiniteQuery ::
  "themesApi \<Rightarrow> segment \<Rightarrow> int option \<Rightarrow> infiniteQueryOptions" where
  "useThemeProductsInfiniteQuery getThemeProductsWithPagination themeId limitArg =
     (let limit = limitParam limitArg in
      \<lparr>queryKey = themeProducts_key themeId @ [Str (ascii ''infinite'')],
       queryFn = (\<lambda>pageParam.
         getThemeProductsWithPagination themeId
           (case pageParam of None \<Rightarrow> 0 | Some c \<Rightarrow> c) limit),
       getNextPageParam = (\<lambda>lastPage allPages.
         (let currentCursor = int (length allPages) * limit
          in if hasMoreList lastPage then Some currentCursor else None)),
       initialPageParam = 0\<rparr>)"

text \<open>
  What \<^verbatim>\<open>useInfiniteQuery\<close> does with the options when the next page is asked for. Its
  data are the pages fetched so far and the page parameter of each. The first page is
  fetched with \<open>initialPageParam\<close>; afterwards the parameter is what
  \<open>getNextPageParam\<close> gives for the last page and all pages, and when that is
  \<^verbatim>\<open>undefined\<close> no fetch is made. A fetch that fails adds no page.
\<close>

record infiniteData =
  pages :: "themeProductsResponse list"
  pageParams :: "int list"

definition fetchPage :: "infiniteQueryOptions \<Rightarrow> int \<Rightarrow> infiniteData \<Rightarrow> infiniteData" where
  "fetchPage options param data =
     (case queryFn options (Some param) of
        Inl e \<Rightarrow> data
      | Inr page \<Rightarrow> data\<lparr>pages := pages data @ [page], pageParams := pageParams data @ [param]\<rparr>)"

definition fetchNextPage :: "infiniteQueryOptions \<Rightarrow> infiniteData \<Rightarrow> infiniteData" where
  "fetchNextPage options data =
     (if pages data = [] then fetchPage options (initialPageParam options) data
      else (case getNextPageParam options (last (pages data)) (pages data) of
              None \<Rightarrow> data
            | Some param \<Rightarrow> fetchPage options param data))"

definition exampleThemesApi :: themesApi where
  "exampleThemesApi themeId cursor limit =
     Inr \<lparr>items = [Payload (nat cursor)], hasMoreList = (cursor + limit < 80)\<rparr>"

definition noPages :: infiniteData where
  "noPages = \<lparr>pages = [], pageParams = []\<rparr>"

definition fourPages :: infiniteData where
  "fourPages =
     \<lparr>pages = [\<lparr>items = [Payload 0], hasMoreList = True\<rparr>,
               \<lparr>items = [Payload 20], hasMoreList = True\<rparr>,
               \<lparr>items = [Payload 40], hasMoreList = True\<rparr>,
               \<lparr>items = [Payload 60], hasMoreList = False\<rparr>],
      pageParams = [0, 20, 40, 60]\<rparr>"

definition threePages :: infiniteData where
  "threePages =
     \<lparr>pages = [\<lparr>items = [Payload 0], hasMoreList = True\<rparr>,
               \<lparr>items = [Payload 20], hasMoreList = True\<rparr>,
               \<lparr>items = [Payload 40], hasMoreList = True\<rparr>],
      pageParams = [0, 20, 40]\<rparr>"

section \<open>Order creation (\<^verbatim>\<open>useCreateOrderMutation\<close>)\<close>

text \<open>
  Modelled from the spec: \<^verbatim>\<open>GiftOrderForm\<close> is declared in \<^verbatim>\<open>@/types\<close>, which is not
  among the sources; the spec gives it as
  \<^verbatim>\<open>{ productId, receivers: list of { quantity, ... }, ordererName, message }\<close>.
  The product identifier is taken to be a number.
\<close>

record receiver =
  quantity :: int

record giftOrderForm =
  productId :: int
  receivers :: "receiver list"
  ordererName :: jsString
  message :: jsString

text \<open>
  The error handed to \<^verbatim>\<open>onError\<close> is \<^verbatim>\<open>any\<close>: it may be missing altogether, and an
  error object may or may not carry a \<^verbatim>\<open>status\<close> and a \<^verbatim>\<open>message\<close>.
\<close>

record orderError =
  error_status :: "int option"
  error_message :: "jsString option"

text \<open>
  What the handlers do to the world outside the cache: the session store
  (\<^verbatim>\<open>sessionStorage\<close>), the error store (\<^verbatim>\<open>useErrorStore\<close>), and, in the order in which
  they happen, the invalidations, alerts, toasts and navigations.
\<close>

datatype event =
    InvalidateQueries "queryKey option"
  | Alert jsString
  | ToastError jsString
  | Navigate jsString

record world =
  sessionStorage :: "jsString \<rightharpoonup> jsString"
  errorStore :: "jsString option"
  events :: "event list"

text \<open>The literals of the handlers, as UTF-16 code units.\<close>

definition msg_orderCompleted :: jsString where
  "msg_orderCompleted =
     [0xC8FC, 0xBB38, 0xC774, 0x20, 0xC644, 0xB8CC, 0xB418, 0xC5C8, 0xC2B5, 0xB2C8, 0xB2E4, 0x2E]"

definition msg_productName :: jsString where
  "msg_productName = [0xA, 0xC0C1, 0xD488, 0xBA85, 0x3A, 0x20]"

definition msg_quantity :: jsString where
  "msg_quantity = [0xA, 0xAD6C, 0xB9E4, 0x20, 0xC218, 0xB7C9, 0x3A, 0x20]"

definition msg_ordererName :: jsString where
  "msg_ordererName = [0xA, 0xBC1C, 0xC2E0, 0xC790, 0x20, 0xC774, 0xB984, 0x3A, 0x20]"

definition msg_message :: jsString where
  "msg_message = [0xA, 0xBA54, 0xC2DC, 0xC9C0, 0x3A, 0x20]"

definition msg_noReceivers :: jsString where
  "msg_noReceivers =
     [0xBC1B, 0xB294, 0x20, 0xC0AC, 0xB78C, 0xC774, 0x20, 0xC5C6, 0xC2B5, 0xB2C8, 0xB2E4]"

definition msg_loginRequired :: jsString where
  "msg_loginRequired =
     [0xB85C, 0xADF8, 0xC778, 0xC774, 0x20, 0xD544, 0xC694, 0xD569, 0xB2C8, 0xB2E4, 0x2E]"

definition msg_orderFailed :: jsString where
  "msg_orderFailed =
     [0xC8FC, 0xBB38, 0xC5D0, 0x20, 0xC2E4, 0xD328, 0xD588, 0xC2B5, 0xB2C8, 0xB2E4, 0x2E]"

text \<open>
  String concatenation turns a number into its decimal digits. This is what the program
  prints for a safe integer; from \<open>10 ^ 21\<close> on JavaScript prints a number in exponent
  notation. Likewise the sum of \<open>totalQuantity\<close> is the program's sum when every
  quantity and every running sum of the \<^verbatim>\<open>reduce\<close> is a safe integer.
\<close>

fun natToString :: "nat \<Rightarrow> jsString" where
  "natToString n = (if n < 10 then [48 + n] else natToString (n div 10) @ [48 + n mod 10])"

declare natToString.simps [simp del]

definition numberToString :: "int \<Rightarrow> jsString" where
  "numberToString i = (if i < 0 then 45 # natToString (nat (- i)) else natToString (nat i))"

definition totalQuantity :: "receiver list \<Rightarrow> int" where
  "totalQuantity rs = foldl (\<lambda>sum r. sum + quantity r) 0 rs"

definition createOrder_onSuccess :: "giftOrderForm \<Rightarrow> world \<Rightarrow> world" where
  "createOrder_onSuccess variables w =
     (let w1 = w\<lparr>events := events w @ [InvalidateQueries (Some products_key)]\<rparr>;
          total = totalQuantity (receivers variables);
          w2 = w1\<lparr>events := events w1 @
                 [Alert (msg_orderCompleted
                         @ msg_productName @ numberToString (productId variables)
                         @ msg_quantity @ numberToString total
                         @ msg_ordererName @ ordererName variables
                         @ msg_message @ message variables)]\<rparr>
      in w2\<lparr>events := events w2 @ [Navigate (ascii ''/'')]\<rparr>)"

text \<open>
  \<^verbatim>\<open>encodeURIComponent\<close> and \<^verbatim>\<open>window.location.pathname\<close> belong to the browser and
  are parameters. \<^verbatim>\<open>error?.status\<close> is \<^verbatim>\<open>undefined\<close> for a missing error, which then
  reaches the last branch, where \<^verbatim>\<open>error.message\<close> throws a \<^verbatim>\<open>TypeError\<close>.
  \<^verbatim>\<open>error.message || ...\<close> takes the fallback for a missing or empty message.
\<close>

definition createOrder_onError ::
  "(jsString \<Rightarrow> jsString) \<Rightarrow> jsString \<Rightarrow> orderError option \<Rightarrow> world \<Rightarrow> jsError + world" where
  "createOrder_onError encodeURIComponent pathname error w =
     (let status = (case error of None \<Rightarrow> None | Some e \<Rightarrow> error_status e) in
      if status = Some 400 then
        Inr (w\<lparr>events := events w @ [ToastError msg_noReceivers]\<rparr>)
      else if status = Some 401 then
        (let w1 = w\<lparr>errorStore := Some msg_loginRequired\<rparr>;
             w2 = w1\<lparr>sessionStorage := (sessionStorage w1)(ascii ''userInfo'' := None)\<rparr>;
             currentPath = encodeURIComponent pathname
         in Inr (w2\<lparr>events := events w2 @ [Navigate (ascii ''/login?redirect='' @ currentPath)]\<rparr>))
      else
        (case error of
           None \<Rightarrow> Inl TypeError
         | Some e \<Rightarrow>
             Inr (w\<lparr>events := events w @
                    [ToastError (case error_message e of
                                   None \<Rightarrow> msg_orderFailed
                                 | Some m \<Rightarrow> if m = [] then msg_orderFailed else m)]\<rparr>)))"

text \<open>Concrete values for the examples of order creation.\<close>

definition emptyWorld :: world where
  "emptyWorld = \<lparr>sessionStorage = Map.empty, errorStore = None, events = []\<rparr>"

definition sessionWorld :: world where
  "sessionWorld =
     \<lparr>sessionStorage = [ascii ''userInfo'' \<mapsto> ascii ''token'', ascii ''cart'' \<mapsto> ascii ''3''],
      errorStore = None, events = []\<rparr>"

definition sampleEncode :: "jsString \<Rightarrow> jsString" where
  "sampleEncode s = s"

definition unauthorized :: orderError where
  "unauthorized = \<lparr>error_status = Some 401, error_message = None\<rparr>"

definition exampleForm :: giftOrderForm where
  "exampleForm =
     \<lparr>productId = 42, receivers = [\<lparr>quantity = 2\<rparr>, \<lparr>quantity = 3\<rparr>],
      ordererName = ascii ''Kim'', message = ascii ''Hi''\<rparr>"

lemmas key_defs =
  themes_key_def themeInfo_key_def themeProducts_key_def rankingProducts_key_def
  product_key_def productDetail_key_def productReviews_key_def productWish_key_def
  products_key_def productPage_key_def

section \<open>Facts about the cache operations\<close>

lemma getQueryData_setQueryData:
  "getQueryData (setQueryData client key updater) k =
     (if k = key
      then (case updater (getQueryData client key) of None \<Rightarrow> getQueryData client key | Some d \<Rightarrow> Some d)
      else getQueryData client k)"
  by (simp add: getQueryData_def setQueryData_def split: option.splits)

lemma getQueryData_cancelQueries:
  "getQueryData (cancelQueries client key) k = getQueryData client k"
  by (simp add: getQueryData_def cancelQueries_def)

lemma wish_key_neq_page_key: "productWish_key a \<noteq> productPage_key b"
  by (simp add: key_defs)

lemma asProductWish_simps:
  "asProductWish None = None"
  "asProductWish (Some (WishData w)) = Some w"
  "asProductWish (Some (PageData p)) = None"
  "asProductWish (Some (OtherData x)) = None"
  by (simp_all add: asProductWish_def)

lemma toggleWish_onMutate_wish_entry:
  "getQueryData (fst (toggleWish_onMutate pid a client)) (productWish_key (Num pid)) =
     Some (WishData (wishUpdater a (asProductWish (getQueryData client (productWish_key (Num pid))))))"
  by (simp add: toggleWish_onMutate_def Let_def getQueryData_setQueryData getQueryData_cancelQueries)


lemma prior_toggleWish_onMutate_wish_entry:
  "getQueryData (fst (prior_toggleWish_onMutate pid a client)) (productWish_key (Num pid)) =
     Some (WishData (wishUpdater a (asProductWish (getQueryData client (productWish_key (Num pid))))))"
  by (simp add: prior_toggleWish_onMutate_def Let_def getQueryData_setQueryData getQueryData_cancelQueries
        wish_key_neq_page_key)

lemma prior_toggleWish_onMutate_page_entry:
  "getQueryData (fst (prior_toggleWish_onMutate pid a client)) (productPage_key (Num pid)) =
     pageUpdater a (getQueryData client (productPage_key (Num pid)))"
  by (simp add: prior_toggleWish_onMutate_def Let_def getQueryData_setQueryData getQueryData_cancelQueries
        wish_key_neq_page_key [symmetric] pageUpdater_def split: option.splits)


lemma getQueryData_emptyClient: "getQueryData emptyClient k = None"
  by (simp add: emptyClient_def getQueryData_def)

lemma getQueryData_wishClient:
  "getQueryData (wishClient pid c w) k =
     (if k = productWish_key (Num pid) then Some (WishData \<lparr>wishCount = c, isWished = w\<rparr>)
      else None)"
  by (simp add: wishClient_def getQueryData_def)

lemma getQueryData_wishPageClient:
  "getQueryData (wishPageClient pid c w) k =
     (if k = productPage_key (Num pid)
      then Some (PageData \<lparr>product = Some (Payload 1), productDetail = Payload 2,
                           reviewData = Payload 3,
                           wishData = Some \<lparr>wishCount = c, isWished = w\<rparr>\<rparr>)
      else if k = productWish_key (Num pid)
      then Some (WishData \<lparr>wishCount = c, isWished = w\<rparr>)
      else None)"
  by (simp add: wishPageClient_def getQueryData_def)



section \<open>Properties of the wish toggle\<close>

text \<open>
  C1. When a wish entry with count \<open>c\<close> and state \<open>w\<close> is cached for the product, \<open>c\<close>
  a safe integer, and the input's \<^verbatim>\<open>isWished\<close> is \<open>w\<close>, the entry reads, right after
  the optimistic phase, count \<open>c - 1\<close> if \<open>w\<close> and \<open>c + 1\<close> otherwise, with the state
  flipped; after the stub remote call has settled with success the entry reads the same.
  Settling changes nothing at all: for every input and every cache, the client after the
  whole mutation is the client right after the optimistic phase.
\<close>

theorem toggle_success_path:
  "useToggleWishMutation pid w client = fst (toggleWish_onMutate pid w client)
   \<and> (getQueryData client (productWish_key (Num pid)) =
          Some (WishData \<lparr>wishCount = c, isWished = w\<rparr>)
        \<and> isSafeInteger c \<longrightarrow>
        getQueryData (fst (toggleWish_onMutate pid w client)) (productWish_key (Num pid)) =
          Some (WishData \<lparr>wishCount = (if w then c - 1 else c + 1), isWished = \<not> w\<rparr>)
        \<and> getQueryData (useToggleWishMutation pid w client) (productWish_key (Num pid)) =
          Some (WishData \<lparr>wishCount = (if w then c - 1 else c + 1), isWished = \<not> w\<rparr>))"
proof -
  have settle: "useToggleWishMutation pid w client = fst (toggleWish_onMutate pid w client)"
    by (simp add: useToggleWishMutation_def toggleWish_mutate_def toggleWish_mutationFn_def
          toggleWish_onSettled_def split: prod.splits)
  have after: "getQueryData (fst (toggleWish_onMutate pid w client)) (productWish_key (Num pid)) =
      Some (WishData \<lparr>wishCount = (if w then c - 1 else c + 1), isWished = \<not> w\<rparr>)"
    if "getQueryData client (productWish_key (Num pid)) =
          Some (WishData \<lparr>wishCount = c, isWished = w\<rparr>)"
    using that by (simp add: toggleWish_onMutate_wish_entry asProductWish_simps wishUpdater_def)
  from settle after show ?thesis by simp
qed

theorem toggle_success_path_witness:
  "getQueryData (wishClient 42 5 True) (productWish_key (Num 42)) =
     Some (WishData \<lparr>wishCount = 5, isWished = True\<rparr>)
   \<and> isSafeInteger 5
   \<and> useToggleWishMutation 42 True (wishClient 42 5 True) =
       fst (toggleWish_onMutate 42 True (wishClient 42 5 True))
   \<and> getQueryData (fst (toggleWish_onMutate 42 True (wishClient 42 5 True)))
         (productWish_key (Num 42)) =
       Some (WishData \<lparr>wishCount = 4, isWished = False\<rparr>)
   \<and> getQueryData (useToggleWishMutation 42 True (wishClient 42 5 True))
         (productWish_key (Num 42)) =
       Some (WishData \<lparr>wishCount = 4, isWished = False\<rparr>)"
proof -
  have cached: "getQueryData (wishClient 42 5 True) (productWish_key (Num 42)) =
      Some (WishData \<lparr>wishCount = 5, isWished = True\<rparr>)"
    by (simp add: getQueryData_wishClient)
  have safe: "isSafeInteger 5"
    by (simp add: isSafeInteger_def)
  show ?thesis
    using cached safe toggle_success_path [of 42 True "wishClient 42 5 True" 5]
    by simp
qed




text \<open>
  C3, as stated, fails: with nothing cached, the toggle from \<^verbatim>\<open>isWished: false\<close> does not
  leave count 1 and state wished in the cache.
\<close>

theorem toggle_without_entry_counterexample:
  "getQueryData emptyClient (productWish_key (Num 42)) = None
   \<and> getQueryData (fst (toggleWish_onMutate 42 False emptyClient)) (productWish_key (Num 42)) \<noteq>
       Some (WishData \<lparr>wishCount = 1, isWished = True\<rparr>)"
  by (simp add: toggleWish_onMutate_wish_entry asProductWish_simps wishUpdater_def
        getQueryData_emptyClient)

text \<open>
  C3, amended. When no wish entry is cached for the product, the entry reads count 0 and
  state not wished right after the optimistic phase, whatever the input's
  \<^verbatim>\<open>isWished\<close>, in both revisions: the updater returns the seed and does not apply the
  flip to it.
\<close>

theorem toggle_without_entry_seeds_baseline:
  assumes "getQueryData client (productWish_key (Num pid)) = None"
  shows "getQueryData (fst (toggleWish_onMutate pid a client)) (productWish_key (Num pid)) =
           Some (WishData \<lparr>wishCount = 0, isWished = False\<rparr>)
       \<and> getQueryData (fst (prior_toggleWish_onMutate pid a client)) (productWish_key (Num pid)) =
           Some (WishData \<lparr>wishCount = 0, isWished = False\<rparr>)"
  using assms
  by (simp add: toggleWish_onMutate_wish_entry prior_toggleWish_onMutate_wish_entry asProductWish_simps wishUpdater_def)

theorem toggle_without_entry_seeds_baseline_witness:
  "getQueryData (fst (toggleWish_onMutate 42 False emptyClient)) (productWish_key (Num 42)) =
     Some (WishData \<lparr>wishCount = 0, isWished = False\<rparr>)
   \<and> getQueryData (fst (prior_toggleWish_onMutate 42 False emptyClient)) (productWish_key (Num 42)) =
     Some (WishData \<lparr>wishCount = 0, isWished = False\<rparr>)"
  using toggle_without_entry_seeds_baseline [of emptyClient 42 False]
  by (simp add: getQueryData_emptyClient)

text \<open>
  C4, as stated, fails: the rewrite decrements when the input's \<^verbatim>\<open>isWished\<close> is true,
  whatever the cache holds. With count 0 and state not wished in the cache, the input
  \<^verbatim>\<open>isWished: true\<close> leaves count \<open>-1\<close>.
\<close>

theorem optimistic_count_negative_counterexample:
  "getQueryData (wishClient 42 0 False) (productWish_key (Num 42)) =
     Some (WishData \<lparr>wishCount = 0, isWished = False\<rparr>)
   \<and> getQueryData (fst (toggleWish_onMutate 42 True (wishClient 42 0 False))) (productWish_key (Num 42)) =
     Some (WishData \<lparr>wishCount = - 1, isWished = False\<rparr>)"
  by (simp add: toggleWish_onMutate_wish_entry asProductWish_simps wishUpdater_def getQueryData_wishClient)

text \<open>
  C4, amended. On cached counts that are safe integers, the input's \<^verbatim>\<open>isWished\<close> alone
  decides between decrement and increment, for every toggle: the wish entry gets the old
  count minus 1 when the input is true and plus 1 when it is false, in both revisions, and
  so does the wish data embedded in the combined page of the earlier revision, where a
  missing embedded count counts as 0. A missing wish entry is seeded with count 0. Hence
  the count after the optimistic rewrite is not negative whenever the cached count is at
  least 1 for input true and at least 0 for input false; the wish entry needs only the
  bound on the wish entry, and the page only the bound on the page.
\<close>

theorem optimistic_count_nonnegative:
  "(getQueryData client (productWish_key (Num pid)) = Some (WishData old)
      \<and> isSafeInteger (wishCount old) \<longrightarrow>
      getQueryData (fst (toggleWish_onMutate pid a client)) (productWish_key (Num pid)) =
        Some (WishData (old\<lparr>isWished := \<not> a,
                wishCount := (if a then wishCount old - 1 else wishCount old + 1)\<rparr>))
      \<and> getQueryData (fst (prior_toggleWish_onMutate pid a client)) (productWish_key (Num pid)) =
        Some (WishData (old\<lparr>isWished := \<not> a,
                wishCount := (if a then wishCount old - 1 else wishCount old + 1)\<rparr>)))
   \<and> (getQueryData client (productWish_key (Num pid)) = Some (WishData old)
      \<and> isSafeInteger (wishCount old) \<and> (if a then 1 else 0) \<le> wishCount old \<longrightarrow>
      (\<exists>w'. getQueryData (fst (toggleWish_onMutate pid a client)) (productWish_key (Num pid)) =
              Some (WishData w') \<and> 0 \<le> wishCount w')
      \<and> (\<exists>w'. getQueryData (fst (prior_toggleWish_onMutate pid a client))
                (productWish_key (Num pid)) =
              Some (WishData w') \<and> 0 \<le> wishCount w'))
   \<and> (getQueryData client (productWish_key (Num pid)) = None \<longrightarrow>
      getQueryData (fst (toggleWish_onMutate pid a client)) (productWish_key (Num pid)) =
        Some (WishData \<lparr>wishCount = 0, isWished = False\<rparr>)
      \<and> getQueryData (fst (prior_toggleWish_onMutate pid a client)) (productWish_key (Num pid)) =
        Some (WishData \<lparr>wishCount = 0, isWished = False\<rparr>))
   \<and> (getQueryData client (productPage_key (Num pid)) = Some (PageData p)
      \<and> wishData p = Some pw \<and> isSafeInteger (wishCount pw) \<longrightarrow>
      getQueryData (fst (prior_toggleWish_onMutate pid a client)) (productPage_key (Num pid)) =
        Some (PageData (p\<lparr>wishData := Some (pw\<lparr>isWished := \<not> a,
                wishCount := (if a then wishCount pw - 1 else wishCount pw + 1)\<rparr>)\<rparr>)))
   \<and> (getQueryData client (productPage_key (Num pid)) = Some (PageData p)
      \<and> wishData p = None \<longrightarrow>
      getQueryData (fst (prior_toggleWish_onMutate pid a client)) (productPage_key (Num pid)) =
        Some (PageData (p\<lparr>wishData :=
                Some \<lparr>wishCount = (if a then - 1 else 1), isWished = \<not> a\<rparr>\<rparr>)))
   \<and> (getQueryData client (productPage_key (Num pid)) = Some (PageData p)
      \<and> isSafeInteger (case wishData p of None \<Rightarrow> 0 | Some w \<Rightarrow> wishCount w)
      \<and> (if a then 1 else 0) \<le> (case wishData p of None \<Rightarrow> 0 | Some w \<Rightarrow> wishCount w) \<longrightarrow>
      (\<exists>p' w'. getQueryData (fst (prior_toggleWish_onMutate pid a client))
                  (productPage_key (Num pid)) = Some (PageData p')
              \<and> wishData p' = Some w' \<and> 0 \<le> wishCount w'))"
proof -
  let ?wk = "productWish_key (Num pid)"
  let ?pk = "productPage_key (Num pid)"
  have rule: "getQueryData (fst (toggleWish_onMutate pid a client)) ?wk =
        Some (WishData (old\<lparr>isWished := \<not> a,
                wishCount := (if a then wishCount old - 1 else wishCount old + 1)\<rparr>))
      \<and> getQueryData (fst (prior_toggleWish_onMutate pid a client)) ?wk =
        Some (WishData (old\<lparr>isWished := \<not> a,
                wishCount := (if a then wishCount old - 1 else wishCount old + 1)\<rparr>))"
    if "getQueryData client ?wk = Some (WishData old)"
    using that
    by (simp add: toggleWish_onMutate_wish_entry prior_toggleWish_onMutate_wish_entry
          asProductWish_simps wishUpdater_def)
  have nonneg: "(\<exists>w'. getQueryData (fst (toggleWish_onMutate pid a client)) ?wk =
              Some (WishData w') \<and> 0 \<le> wishCount w')
      \<and> (\<exists>w'. getQueryData (fst (prior_toggleWish_onMutate pid a client)) ?wk =
              Some (WishData w') \<and> 0 \<le> wishCount w')"
    if "getQueryData client ?wk = Some (WishData old)" "(if a then 1 else 0) \<le> wishCount old"
    using rule [OF that(1)] that(2) by (simp split: if_splits)
  have seed: "getQueryData (fst (toggleWish_onMutate pid a client)) ?wk =
        Some (WishData \<lparr>wishCount = 0, isWished = False\<rparr>)
      \<and> getQueryData (fst (prior_toggleWish_onMutate pid a client)) ?wk =
        Some (WishData \<lparr>wishCount = 0, isWished = False\<rparr>)"
    if "getQueryData client ?wk = None"
    using that
    by (simp add: toggleWish_onMutate_wish_entry prior_toggleWish_onMutate_wish_entry
          asProductWish_simps wishUpdater_def)
  have page_some: "getQueryData (fst (prior_toggleWish_onMutate pid a client)) ?pk =
        Some (PageData (p\<lparr>wishData := Some (pw\<lparr>isWished := \<not> a,
                wishCount := (if a then wishCount pw - 1 else wishCount pw + 1)\<rparr>)\<rparr>))"
    if "getQueryData client ?pk = Some (PageData p)" "wishData p = Some pw" for pw
    using that
    by (simp add: prior_toggleWish_onMutate_page_entry pageUpdater_def asProductPage_def)
  have page_none: "getQueryData (fst (prior_toggleWish_onMutate pid a client)) ?pk =
        Some (PageData (p\<lparr>wishData :=
                Some \<lparr>wishCount = (if a then - 1 else 1), isWished = \<not> a\<rparr>\<rparr>))"
    if "getQueryData client ?pk = Some (PageData p)" "wishData p = None"
    using that
    by (simp add: prior_toggleWish_onMutate_page_entry pageUpdater_def asProductPage_def)
  have page_nonneg: "\<exists>p' w'. getQueryData (fst (prior_toggleWish_onMutate pid a client)) ?pk =
                Some (PageData p')
              \<and> wishData p' = Some w' \<and> 0 \<le> wishCount w'"
    if cached: "getQueryData client ?pk = Some (PageData p)"
      and bound: "(if a then 1 else 0) \<le> (case wishData p of None \<Rightarrow> 0 | Some w \<Rightarrow> wishCount w)"
  proof (cases "wishData p")
    case None
    with bound have "\<not> a" by (simp split: if_splits)
    with page_none [OF cached None] show ?thesis by simp
  next
    case (Some w)
    with bound page_some [OF cached Some] show ?thesis by (simp split: if_splits)
  qed
  from rule nonneg seed page_some page_none page_nonneg show ?thesis by blast
qed

theorem optimistic_count_nonnegative_witness:
  "getQueryData (wishPageClient 42 5 True) (productWish_key (Num 42)) =
     Some (WishData \<lparr>wishCount = 5, isWished = True\<rparr>)
   \<and> isSafeInteger 5
   \<and> getQueryData (fst (toggleWish_onMutate 42 True (wishPageClient 42 5 True)))
         (productWish_key (Num 42)) =
       Some (WishData \<lparr>wishCount = 4, isWished = False\<rparr>)
   \<and> getQueryData (fst (prior_toggleWish_onMutate 42 True (wishPageClient 42 5 True)))
         (productWish_key (Num 42)) =
       Some (WishData \<lparr>wishCount = 4, isWished = False\<rparr>)
   \<and> getQueryData (fst (prior_toggleWish_onMutate 42 True (wishPageClient 42 5 True)))
         (productPage_key (Num 42)) =
       Some (PageData \<lparr>product = Some (Payload 1), productDetail = Payload 2,
                        reviewData = Payload 3,
                        wishData = Some \<lparr>wishCount = 4, isWished = False\<rparr>\<rparr>)
   \<and> getQueryData (fst (toggleWish_onMutate 42 True emptyClient)) (productWish_key (Num 42)) =
       Some (WishData \<lparr>wishCount = 0, isWished = False\<rparr>)"
proof -
  have cached: "getQueryData (wishPageClient 42 5 True) (productWish_key (Num 42)) =
      Some (WishData \<lparr>wishCount = 5, isWished = True\<rparr>)"
    by (simp add: getQueryData_wishPageClient wish_key_neq_page_key)
  have page: "getQueryData (wishPageClient 42 5 True) (productPage_key (Num 42)) =
      Some (PageData \<lparr>product = Some (Payload 1), productDetail = Payload 2,
                       reviewData = Payload 3,
                       wishData = Some \<lparr>wishCount = 5, isWished = True\<rparr>\<rparr>)"
    by (simp add: getQueryData_wishPageClient)
  have safe: "isSafeInteger 5"
    by (simp add: isSafeInteger_def)
  have absent: "getQueryData emptyClient (productWish_key (Num 42)) = None"
    by (simp add: getQueryData_emptyClient)
  show ?thesis
    using cached page safe absent
      optimistic_count_nonnegative
        [of "wishPageClient 42 5 True" 42 "\<lparr>wishCount = 5, isWished = True\<rparr>" True
            "\<lparr>product = Some (Payload 1), productDetail = Payload 2, reviewData = Payload 3,
              wishData = Some \<lparr>wishCount = 5, isWished = True\<rparr>\<rparr>"
            "\<lparr>wishCount = 5, isWished = True\<rparr>"]
      optimistic_count_nonnegative [of emptyClient 42 _ True]
    by simp
qed

text \<open>
  C10. With respect to the wish entry of the product, the optimistic phases of the two
  revisions write the same value, whatever the product, the input and the cache before.
\<close>

theorem toggleWish_onMutate_revisions_agree_on_wish_entry:
  "getQueryData (fst (toggleWish_onMutate pid a client)) (productWish_key (Num pid)) =
   getQueryData (fst (prior_toggleWish_onMutate pid a client)) (productWish_key (Num pid))"
  by (simp add: toggleWish_onMutate_wish_entry prior_toggleWish_onMutate_wish_entry)

section \<open>Properties of the product reads\<close>

text \<open>
  C8, as stated, fails on the later revision: when the remote lookup resolves to
  \<^verbatim>\<open>null\<close>, the product query and the page read both succeed, with a \<^verbatim>\<open>null\<close> product.
\<close>

theorem missing_product_read_counterexample:
  "getProduct missingProductApi (Num 42) = Inr None
   \<and> useSuspenseProductQuery missingProductApi (Num 42) = Inr None
   \<and> useProductPageDataQuery missingProductApi (Num 42) =
       Inr \<lparr>product = None, productDetail = Payload 2, reviewData = Payload 3,
            wishData = Some \<lparr>wishCount = 5, isWished = True\<rparr>\<rparr>"
  by (simp add: missingProductApi_def useSuspenseProductQuery_def useProductPageDataQuery_def
        product_fn_def productDetail_fn_def productReviews_fn_def productWish_fn_def)

text \<open>
  C8, amended. When the remote lookup of a product resolves to \<^verbatim>\<open>null\<close>: in the earlier
  revision the product query throws the not-found error, and the page read never succeeds;
  it throws the not-found error when the three other loads resolve. In the later revision
  neither read checks the product: the product query succeeds with \<^verbatim>\<open>null\<close>, and the
  page read succeeds with a \<^verbatim>\<open>null\<close> product when the three other loads resolve.
\<close>

theorem missing_product_reads:
  assumes "getProduct api pid = Inr None"
  shows "prior_useSuspenseProductQuery api pid = Inl (Error msg_productNotFound)
       \<and> isl (prior_useProductPageDataQuery api pid)
       \<and> useSuspenseProductQuery api pid = Inr None
       \<and> (getProductDetail api pid = Inr d \<and> getProductReviews api pid = Inr r
            \<and> getProductWish api pid = Inr w \<longrightarrow>
          prior_useProductPageDataQuery api pid = Inl (Error msg_productNotFound)
          \<and> useProductPageDataQuery api pid =
              Inr \<lparr>product = None, productDetail = d, reviewData = r, wishData = w\<rparr>)"
  using assms
  by (simp add: prior_useSuspenseProductQuery_def prior_useProductPageDataQuery_def
        useSuspenseProductQuery_def useProductPageDataQuery_def
        product_fn_def productDetail_fn_def productReviews_fn_def productWish_fn_def
        split: sum.splits)

theorem missing_product_reads_witness:
  "prior_useSuspenseProductQuery missingProductApi (Num 42) = Inl (Error msg_productNotFound)
   \<and> prior_useProductPageDataQuery missingProductApi (Num 42) = Inl (Error msg_productNotFound)
   \<and> useSuspenseProductQuery missingProductApi (Num 42) = Inr None"
  using missing_product_reads
    [of missingProductApi "Num 42" "Payload 2" "Payload 3" "Some \<lparr>wishCount = 5, isWished = True\<rparr>"]
  by (simp add: missingProductApi_def)

section \<open>Properties of the paginated theme read\<close>

text \<open>
  C5. With \<open>n\<close> pages fetched and page size \<open>limit\<close> (20 when the caller gives none),
  both safe integers like their product, the cursor for the next request is \<open>n * limit\<close>,
  computed from the number of pages alone; it is produced only when the last page has
  \<^verbatim>\<open>hasMoreList\<close>. Asking for the next page then calls the remote read with that cursor
  and the limit; the first request, with no page fetched yet, goes out with cursor 0. When
  the last page's \<^verbatim>\<open>hasMoreList\<close> is false, no cursor is produced, nothing is fetched
  and the pages stay as they are.
\<close>

theorem next_cursor_is_offset:
  "limitParam None = 20
   \<and> limitParam (Some l) = l
   \<and> (\<not> hasMoreList lastPage \<longrightarrow>
        getNextPageParam (useThemeProductsInfiniteQuery api themeId limitArg) lastPage allPages =
          None)
   \<and> (pages data \<noteq> [] \<and> \<not> hasMoreList (last (pages data)) \<longrightarrow>
        fetchNextPage (useThemeProductsInfiniteQuery api themeId limitArg) data = data)
   \<and> (hasMoreList lastPage \<and> isSafeInteger (limitParam limitArg)
        \<and> isSafeInteger (int (length allPages) * limitParam limitArg) \<longrightarrow>
        getNextPageParam (useThemeProductsInfiniteQuery api themeId limitArg) lastPage allPages =
          Some (int (length allPages) * limitParam limitArg))
   \<and> ((pages data = [] \<or> hasMoreList (last (pages data)))
        \<and> isSafeInteger (limitParam limitArg)
        \<and> isSafeInteger (int (length (pages data)) * limitParam limitArg) \<longrightarrow>
        fetchNextPage (useThemeProductsInfiniteQuery api themeId limitArg) data =
          (case api themeId (int (length (pages data)) * limitParam limitArg)
                  (limitParam limitArg) of
             Inl e \<Rightarrow> data
           | Inr page \<Rightarrow>
               data\<lparr>pages := pages data @ [page],
                    pageParams := pageParams data @
                      [int (length (pages data)) * limitParam limitArg]\<rparr>))"
proof -
  let ?options = "useThemeProductsInfiniteQuery api themeId limitArg"
  have default: "limitParam None = 20" "limitParam (Some l) = l"
    by (simp_all add: limitParam_def)
  have cursor: "getNextPageParam ?options lastPage allPages =
      (if hasMoreList lastPage then Some (int (length allPages) * limitParam limitArg) else None)"
    for lastPage allPages
    by (simp add: useThemeProductsInfiniteQuery_def Let_def)
  have call: "queryFn ?options (Some c) = api themeId c (limitParam limitArg)" for c
    by (simp add: useThemeProductsInfiniteQuery_def Let_def)
  have first: "initialPageParam ?options = 0"
    by (simp add: useThemeProductsInfiniteQuery_def Let_def)
  have stop: "fetchNextPage ?options data = data"
    if "pages data \<noteq> []" "\<not> hasMoreList (last (pages data))"
    using that by (simp add: fetchNextPage_def cursor)
  have fetch: "fetchNextPage ?options data =
      (case api themeId (int (length (pages data)) * limitParam limitArg)
              (limitParam limitArg) of
         Inl e \<Rightarrow> data
       | Inr page \<Rightarrow>
           data\<lparr>pages := pages data @ [page],
                pageParams := pageParams data @
                  [int (length (pages data)) * limitParam limitArg]\<rparr>)"
    if "pages data = [] \<or> hasMoreList (last (pages data))"
  proof (cases "pages data = []")
    case True
    then have "int (length (pages data)) * limitParam limitArg = 0" by simp
    with True show ?thesis
      by (simp add: fetchNextPage_def fetchPage_def first call split: sum.splits)
  next
    case False
    with that have "hasMoreList (last (pages data))" by simp
    with False show ?thesis
      by (simp add: fetchNextPage_def fetchPage_def cursor call split: sum.splits)
  qed
  from default cursor stop fetch show ?thesis by simp
qed

theorem next_cursor_is_offset_witness:
  "isSafeInteger (limitParam None)
   \<and> isSafeInteger (int (length (pages threePages)) * limitParam None)
   \<and> getNextPageParam (useThemeProductsInfiniteQuery exampleThemesApi (Num 7) None)
       (last (pages threePages)) (pages threePages) = Some 60
   \<and> fetchNextPage (useThemeProductsInfiniteQuery exampleThemesApi (Num 7) None) threePages =
       fourPages
   \<and> getNextPageParam (useThemeProductsInfiniteQuery exampleThemesApi (Num 7) None)
       (last (pages fourPages)) (pages fourPages) = None
   \<and> fetchNextPage (useThemeProductsInfiniteQuery exampleThemesApi (Num 7) None) fourPages =
       fourPages
   \<and> fetchNextPage (useThemeProductsInfiniteQuery exampleThemesApi (Num 7) None) noPages =
       \<lparr>pages = [\<lparr>items = [Payload 0], hasMoreList = True\<rparr>], pageParams = [0]\<rparr>"
proof -
  have safe: "isSafeInteger (limitParam None)"
    "isSafeInteger (int (length (pages threePages)) * limitParam None)"
    "isSafeInteger (int (length (pages noPages)) * limitParam None)"
    by (simp_all add: isSafeInteger_def limitParam_def threePages_def noPages_def)
  have more: "hasMoreList (last (pages threePages))" "\<not> hasMoreList (last (pages fourPages))"
    "pages fourPages \<noteq> []" "pages noPages = []"
    by (simp_all add: threePages_def fourPages_def noPages_def)
  show ?thesis
    using safe more
      next_cursor_is_offset [where api = exampleThemesApi and themeId = "Num 7"
        and limitArg = None and data = threePages
        and lastPage = "last (pages threePages)" and allPages = "pages threePages"]
      next_cursor_is_offset [where api = exampleThemesApi and themeId = "Num 7"
        and limitArg = None and data = fourPages
        and lastPage = "last (pages fourPages)" and allPages = "pages fourPages"]
      next_cursor_is_offset [where api = exampleThemesApi and themeId = "Num 7"
        and limitArg = None and data = noPages]
    by (simp add: threePages_def fourPages_def noPages_def exampleThemesApi_def limitParam_def)
qed

section \<open>Properties of order creation\<close>

lemma foldl_quantity: "foldl (\<lambda>sum r. sum + quantity r) a rs = a + sum_list (map quantity rs)"
  by (induction rs arbitrary: a) simp_all

lemma totalQuantity_sum: "totalQuantity rs = sum_list (map quantity rs)"
  by (simp add: totalQuantity_def foldl_quantity)

lemma abs_quantities_nonneg: "0 \<le> sum_list (map (\<lambda>r. \<bar>quantity r\<bar>) rs)"
  by (induction rs) simp_all

lemma quantity_safe:
  assumes "isSafeInteger (sum_list (map (\<lambda>r. \<bar>quantity r\<bar>) rs))" and "r \<in> set rs"
  shows "isSafeInteger (quantity r)"
proof -
  have "\<bar>quantity r\<bar> \<le> sum_list (map (\<lambda>r. \<bar>quantity r\<bar>) rs)"
    using assms(2)
  proof (induction rs)
    case Nil
    then show ?case by simp
  next
    case (Cons x xs)
    show ?case
    proof (cases "r = x")
      case True
      with abs_quantities_nonneg [of xs] show ?thesis by simp
    next
      case False
      with Cons have "\<bar>quantity r\<bar> \<le> sum_list (map (\<lambda>r. \<bar>quantity r\<bar>) xs)" by simp
      then show ?thesis by simp
    qed
  qed
  with assms(1) show ?thesis
    unfolding isSafeInteger_def by linarith
qed

lemma running_sums_safe:
  assumes "isSafeInteger (sum_list (map (\<lambda>r. \<bar>quantity r\<bar>) rs))"
  shows "isSafeInteger (foldl (\<lambda>sum r. sum + quantity r) 0 (take k rs))"
proof -
  have "\<bar>sum_list (map quantity (take k rs))\<bar> \<le> sum_list (map (\<lambda>r. \<bar>quantity r\<bar>) (take k rs))"
    using sum_list_abs [of "map quantity (take k rs)"] by (simp add: comp_def)
  also have "\<dots> \<le> sum_list (map (\<lambda>r. \<bar>quantity r\<bar>) (take k rs))
                  + sum_list (map (\<lambda>r. \<bar>quantity r\<bar>) (drop k rs))"
    by (simp add: abs_quantities_nonneg)
  also have "\<dots> = sum_list (map (\<lambda>r. \<bar>quantity r\<bar>) rs)"
    by (metis append_take_drop_id map_append sum_list.append)
  finally have "\<bar>sum_list (map quantity (take k rs))\<bar> \<le> sum_list (map (\<lambda>r. \<bar>quantity r\<bar>) rs)" .
  with assms show ?thesis
    unfolding isSafeInteger_def foldl_quantity by linarith
qed

lemma partialMatchKey_products:
  "partialMatchKey products_key (product_key pid)"
  "partialMatchKey products_key (productDetail_key pid)"
  "partialMatchKey products_key (productReviews_key pid)"
  "partialMatchKey products_key (productWish_key pid)"
  "partialMatchKey products_key (rankingProducts_key t r)"
  "partialMatchKey products_key products_key"
  by (simp_all add: key_defs)

text \<open>
  C6, as stated, fails in two places. A failure that hands the handler no error value
  reaches the last branch (\<^verbatim>\<open>error?.status\<close> is \<^verbatim>\<open>undefined\<close>), where
  \<^verbatim>\<open>error.message\<close> throws: no notification is produced. And status 401 removes the
  item \<^verbatim>\<open>userInfo\<close> from the session store, not the whole store: another item is still
  there afterwards.
\<close>

theorem order_failure_counterexample:
  "createOrder_onError sampleEncode (ascii ''/order/1'') None sessionWorld = Inl TypeError
   \<and> sessionStorage sessionWorld (ascii ''cart'') = Some (ascii ''3'')
   \<and> isl (createOrder_onError sampleEncode (ascii ''/order/1'') (Some unauthorized) sessionWorld)
       = False
   \<and> sessionStorage
        (projr (createOrder_onError sampleEncode (ascii ''/order/1'') (Some unauthorized)
                  sessionWorld))
        (ascii ''cart'') = Some (ascii ''3'')
   \<and> sessionStorage
        (projr (createOrder_onError sampleEncode (ascii ''/order/1'') (Some unauthorized)
                  sessionWorld))
        (ascii ''userInfo'') = None"
  by (simp add: createOrder_onError_def Let_def sessionWorld_def unauthorized_def ascii_def)

text \<open>
  C6, amended. A failed order creation that hands the handler an error object is classified
  by the status of the error, and exactly one branch runs. Status 400: the toast that there
  are no receivers, and nothing else (no navigation, no invalidation). Status 401: the
  error store holds the login-required message, the item \<^verbatim>\<open>userInfo\<close> is removed from
  the session store (its other items stay), and the one new event is the navigation to
  \<^verbatim>\<open>/login?redirect=\<close> followed by the URL-encoded current path. Any other status, or
  none: one toast, with the error's message when it has a non-empty one and the fixed
  fallback otherwise, and nothing else.
\<close>

theorem order_failure_classified_by_status:
  "createOrder_onError encodeURIComponent pathname (Some e) w =
     Inr (if error_status e = Some 400 then
            w\<lparr>events := events w @ [ToastError msg_noReceivers]\<rparr>
          else if error_status e = Some 401 then
            w\<lparr>errorStore := Some msg_loginRequired,
              sessionStorage := (sessionStorage w)(ascii ''userInfo'' := None),
              events := events w @
                [Navigate (ascii ''/login?redirect='' @ encodeURIComponent pathname)]\<rparr>
          else
            w\<lparr>events := events w @
                [ToastError (case error_message e of
                               None \<Rightarrow> msg_orderFailed
                             | Some m \<Rightarrow> if m = [] then msg_orderFailed else m)]\<rparr>)"
  by (simp add: createOrder_onError_def Let_def)

text \<open>
  C7. A successful order creation adds exactly three events, in this order: the
  invalidation of the key \<^verbatim>\<open>['products']\<close>, the alert, and one navigation to the home
  route. When the product identifier is a safe integer and the absolute quantities of the
  receivers add up to a safe integer (so that every quantity and every running sum is
  one), the quantity shown in the alert is the sum of the quantities of the receivers
  (5 for quantities 2 and 3). The invalidated key is a prefix of every product key of the
  registry: product, detail, reviews, wish and ranking.
\<close>

theorem order_success_effects:
  "(\<exists>shown. createOrder_onSuccess form w =
       w\<lparr>events := events w @
          [InvalidateQueries (Some products_key), Alert shown, Navigate (ascii ''/'')]\<rparr>)
   \<and> (isSafeInteger (productId form)
        \<and> isSafeInteger (sum_list (map (\<lambda>r. \<bar>quantity r\<bar>) (receivers form))) \<longrightarrow>
        createOrder_onSuccess form w =
          w\<lparr>events := events w @
             [InvalidateQueries (Some products_key),
              Alert (msg_orderCompleted
                     @ msg_productName @ numberToString (productId form)
                     @ msg_quantity @ numberToString (sum_list (map quantity (receivers form)))
                     @ msg_ordererName @ ordererName form
                     @ msg_message @ message form),
              Navigate (ascii ''/'')]\<rparr>)
   \<and> totalQuantity [\<lparr>quantity = 2\<rparr>, \<lparr>quantity = 3\<rparr>] = 5
   \<and> numberToString (totalQuantity [\<lparr>quantity = 2\<rparr>, \<lparr>quantity = 3\<rparr>]) = ascii ''5''
   \<and> partialMatchKey products_key (product_key pid)
   \<and> partialMatchKey products_key (productDetail_key pid)
   \<and> partialMatchKey products_key (productReviews_key pid)
   \<and> partialMatchKey products_key (productWish_key pid)
   \<and> partialMatchKey products_key (rankingProducts_key targetType rankType)
   \<and> \<not> partialMatchKey products_key themes_key"
proof -
  have effects: "createOrder_onSuccess form w =
     w\<lparr>events := events w @
        [InvalidateQueries (Some products_key),
         Alert (msg_orderCompleted
                @ msg_productName @ numberToString (productId form)
                @ msg_quantity @ numberToString (sum_list (map quantity (receivers form)))
                @ msg_ordererName @ ordererName form
                @ msg_message @ message form),
         Navigate (ascii ''/'')]\<rparr>"
    by (simp add: createOrder_onSuccess_def Let_def totalQuantity_sum)
  then have three: "\<exists>shown. createOrder_onSuccess form w =
       w\<lparr>events := events w @
          [InvalidateQueries (Some products_key), Alert shown, Navigate (ascii ''/'')]\<rparr>"
    by blast
  have total: "totalQuantity [\<lparr>quantity = 2\<rparr>, \<lparr>quantity = 3\<rparr>] = 5"
    by (simp add: totalQuantity_def)
  have shown: "numberToString (totalQuantity [\<lparr>quantity = 2\<rparr>, \<lparr>quantity = 3\<rparr>]) = ascii ''5''"
    by (simp add: total numberToString_def natToString.simps ascii_def)
  have other: "\<not> partialMatchKey products_key themes_key"
    by (simp add: key_defs ascii_def)
  from effects three total shown other show ?thesis
    by (simp add: partialMatchKey_products)
qed

theorem order_success_effects_witness:
  "isSafeInteger (productId exampleForm)
   \<and> isSafeInteger (sum_list (map (\<lambda>r. \<bar>quantity r\<bar>) (receivers exampleForm)))
   \<and> createOrder_onSuccess exampleForm emptyWorld =
       emptyWorld\<lparr>events :=
         [InvalidateQueries (Some products_key),
          Alert (msg_orderCompleted
                 @ msg_productName @ ascii ''42''
                 @ msg_quantity @ ascii ''5''
                 @ msg_ordererName @ ascii ''Kim''
                 @ msg_message @ ascii ''Hi''),
          Navigate (ascii ''/'')]\<rparr>"
proof -
  have safe: "isSafeInteger (productId exampleForm)"
    "isSafeInteger (sum_list (map (\<lambda>r. \<bar>quantity r\<bar>) (receivers exampleForm)))"
    by (simp_all add: exampleForm_def isSafeInteger_def)
  have digits: "numberToString 42 = ascii ''42''" "numberToString 5 = ascii ''5''"
    by (simp_all add: numberToString_def natToString.simps ascii_def)
  show ?thesis
    using safe order_success_effects [of exampleForm emptyWorld]
    by (simp add: exampleForm_def emptyWorld_def digits)
qed

section \<open>Properties of the key registry\<close>

text \<open>
  C9. The key registry is deterministic and injective: a family with its parameters always
  gives the same key (\<open>keyOf\<close> is a function of the family and the parameters alone), and
  two families-with-parameters give equal keys exactly when they are the same family with
  the same parameters.
\<close>

theorem keyOf_injective: "(keyOf f = keyOf g) = (f = g)"
  by (cases f; cases g) (simp_all add: key_defs ascii_def)

end
